theory Spec2Isabelle
  imports Main "HOL-Library.Word"
begin

section \<open>The connection manager: class ChatWebSocket (services/websocket.ts)\<close>

text \<open>
  The class owns one browser socket at a time (\<open>this.ws\<close>), four handler arrays and the
  reconnect bookkeeping. Sockets are mutable browser objects that outlive the reference the
  manager holds (a released socket can still deliver a late close event to the closure that
  \<open>connect()\<close> wired on it), so every socket the manager ever created is kept in a store and
  \<open>ws\<close> is an index into that store. Pending \<open>setTimeout\<close> callbacks are kept as the list of
  their delays: all of them are the same closure over \<open>this\<close>. Everything the class does to
  the outside (console output, handler invocations, socket construction, transmission,
  scheduling) is appended to \<open>trace\<close>, oldest first.

  Handlers are opaque callbacks; they are represented by an identity of type \<open>'h\<close> and their
  invocation is recorded in the trace. They are taken to return normally and not to call
  back into the manager, as the handlers registered in this repository do. \<open>'m\<close> is the
  type of decoded messages, \<open>'w\<close> the type of wire text.

  A console line is recorded by its fixed text; the values interpolated into it or logged
  beside it are left out.
\<close>

datatype ready_state = CONNECTING | OPEN | CLOSING | CLOSED

record 'w socket =
  url :: string
  readyState :: ready_state
  sent :: "'w list"

datatype ('h, 'm, 'w) effect =
    NewWebSocket string
  | SocketClose nat
  | SocketSend nat 'w
  | ConsoleLog string
  | ConsoleError string
  | CallOpen 'h
  | CallMessage 'h 'm
  | CallError 'h
  | CallClose 'h
  | SetTimeout nat

record ('h, 'm, 'w) chatws =
  ws :: "nat option"
  messageHandlers :: "'h list"
  errorHandlers :: "'h list"
  openHandlers :: "'h list"
  closeHandlers :: "'h list"
  reconnectAttempts :: nat
  sessionId :: string
  isReconnecting :: bool
  isManuallyDisconnected :: bool
  WS_BASE_URL :: string
  sockets :: "'w socket list"
  timers :: "nat list"
  trace :: "('h, 'm, 'w) effect list"

text \<open>The two private fields that are initialised once and never assigned again.\<close>

definition maxReconnectAttempts :: nat where
  "maxReconnectAttempts = 5"

definition reconnectDelay :: nat where
  "reconnectDelay = 1000"

text \<open>\<open>new ChatWebSocket(sessionId)\<close>, with the configured base URL of \<open>config.ts\<close>.\<close>

definition new_ChatWebSocket :: "string \<Rightarrow> string \<Rightarrow> ('h, 'm, 'w) chatws" where
  "new_ChatWebSocket base sid =
     \<lparr> ws = None, messageHandlers = [], errorHandlers = [], openHandlers = [],
       closeHandlers = [], reconnectAttempts = 0, sessionId = sid,
       isReconnecting = False, isManuallyDisconnected = False,
       WS_BASE_URL = base, sockets = [], timers = [], trace = [] \<rparr>"

text \<open>\<open>this.ws?.readyState\<close>: \<open>None\<close> stands for \<open>undefined\<close>.\<close>

definition getState :: "('h, 'm, 'w) chatws \<Rightarrow> ready_state option" where
  "getState w =
     (case ws w of
        None \<Rightarrow> None
      | Some i \<Rightarrow> if i < length (sockets w) then Some (readyState (sockets w ! i)) else None)"

definition isConnected :: "('h, 'm, 'w) chatws \<Rightarrow> bool" where
  "isConnected w = (getState w = Some OPEN)"

definition emit :: "('h, 'm, 'w) effect list \<Rightarrow> ('h, 'm, 'w) chatws \<Rightarrow> ('h, 'm, 'w) chatws" where
  "emit es w = w\<lparr>trace := trace w @ es\<rparr>"

text \<open>
  \<open>connect()\<close>. The new socket starts in \<open>CONNECTING\<close>; the four callbacks wired on it are
  the functions \<open>ws_onopen\<close>, \<open>ws_onmessage\<close>, \<open>ws_onerror\<close> and \<open>ws_onclose\<close> below.
\<close>

definition connect :: "('h, 'm, 'w) chatws \<Rightarrow> ('h, 'm, 'w) chatws" where
  "connect w =
     (if getState w = Some OPEN \<or> getState w = Some CONNECTING then w
      else
        let wsUrl = WS_BASE_URL w @ ''/chat/'' @ sessionId w @ ''/'' in
        emit [NewWebSocket wsUrl]
          (w\<lparr>isManuallyDisconnected := False,
             ws := Some (length (sockets w)),
             sockets := sockets w @ [\<lparr>url = wsUrl, readyState = CONNECTING, sent = []\<rparr>]\<rparr>))"

text \<open>
  \<open>attemptReconnect()\<close>: the callback handed to \<open>setTimeout\<close> is \<open>reconnect_callback\<close>; it
  is queued with its delay.
\<close>

definition attemptReconnect :: "('h, 'm, 'w) chatws \<Rightarrow> ('h, 'm, 'w) chatws" where
  "attemptReconnect w =
     (if isManuallyDisconnected w \<or> isReconnecting w
         \<or> reconnectAttempts w \<ge> maxReconnectAttempts then w
      else
        let n = reconnectAttempts w + 1 in
        emit [SetTimeout (reconnectDelay * n)]
          (w\<lparr>isReconnecting := True, reconnectAttempts := n,
             timers := timers w @ [reconnectDelay * n]\<rparr>))"

definition reconnect_callback :: "('h, 'm, 'w) chatws \<Rightarrow> ('h, 'm, 'w) chatws" where
  "reconnect_callback w =
     (if \<not> isManuallyDisconnected w
      then connect (emit [ConsoleLog ''Attempting to reconnect...''] w)
      else w)"

text \<open>
  The runtime fires the \<open>k\<close>-th pending timer: the timer leaves the queue and its callback
  runs. Real time is not modelled, so any pending timer may fire.
\<close>

definition timer_fire :: "nat \<Rightarrow> ('h, 'm, 'w) chatws \<Rightarrow> ('h, 'm, 'w) chatws" where
  "timer_fire k w =
     (if k < length (timers w)
      then reconnect_callback (w\<lparr>timers := take k (timers w) @ drop (Suc k) (timers w)\<rparr>)
      else w)"

text \<open>The four transport callbacks, as the closures of \<open>connect()\<close> are written.\<close>

definition ws_onopen :: "('h, 'm, 'w) chatws \<Rightarrow> ('h, 'm, 'w) chatws" where
  "ws_onopen w =
     emit (ConsoleLog ''WebSocket connected'' # map CallOpen (openHandlers w))
       (w\<lparr>reconnectAttempts := 0, isReconnecting := False\<rparr>)"

text \<open>
  \<open>JSON.parse\<close> belongs to the host; it is the parameter \<open>parse\<close>, and \<open>None\<close> is its
  \<open>SyntaxError\<close>, which the \<open>catch\<close> block receives.
\<close>

definition ws_onmessage ::
  "('w \<Rightarrow> 'm option) \<Rightarrow> 'w \<Rightarrow> ('h, 'm, 'w) chatws \<Rightarrow> ('h, 'm, 'w) chatws" where
  "ws_onmessage parse data w =
     (case parse data of
        Some message \<Rightarrow> emit (map (\<lambda>h. CallMessage h message) (messageHandlers w)) w
      | None \<Rightarrow> emit [ConsoleError ''Error parsing WebSocket message:''] w)"

definition ws_onerror :: "('h, 'm, 'w) chatws \<Rightarrow> ('h, 'm, 'w) chatws" where
  "ws_onerror w =
     (if getState w \<noteq> Some CLOSED
      then emit (ConsoleError ''WebSocket error:'' # map CallError (errorHandlers w)) w
      else w)"

definition ws_onclose :: "('h, 'm, 'w) chatws \<Rightarrow> ('h, 'm, 'w) chatws" where
  "ws_onclose w =
     (let w1 = emit (ConsoleLog ''WebSocket disconnected'' # map CallClose (closeHandlers w)) w
      in if \<not> isManuallyDisconnected w1 then attemptReconnect w1 else w1)"

text \<open>
  \<open>WebSocket.close()\<close> of the browser: the closing handshake starts and the close event
  arrives later, as a transport event of its own.
\<close>

definition socket_close :: "'w socket \<Rightarrow> 'w socket" where
  "socket_close s = (if readyState s = CLOSED then s else s\<lparr>readyState := CLOSING\<rparr>)"

definition disconnect :: "('h, 'm, 'w) chatws \<Rightarrow> ('h, 'm, 'w) chatws" where
  "disconnect w =
     (let w1 = w\<lparr>isManuallyDisconnected := True, isReconnecting := False,
                  reconnectAttempts := 0\<rparr>
      in case ws w1 of
           None \<Rightarrow> w1
         | Some i \<Rightarrow>
             emit [SocketClose i]
               (w1\<lparr>sockets := (sockets w1)[i := socket_close (sockets w1 ! i)], ws := None\<rparr>))"

text \<open>
  \<open>send(message)\<close>. \<open>JSON.stringify\<close> is the parameter \<open>stringify\<close>; it throws on values
  that have no JSON text (\<open>None\<close>), and nothing in \<open>send\<close> catches that. In the open
  branch \<open>this.ws\<close> is the socket whose state was just read.
\<close>

datatype exn = TypeError

definition send ::
  "('c \<Rightarrow> 'w option) \<Rightarrow> 'c \<Rightarrow> ('h, 'm, 'w) chatws \<Rightarrow> exn + ('h, 'm, 'w) chatws" where
  "send stringify message w =
     (if getState w = Some OPEN then
        (case stringify message of
           None \<Rightarrow> Inl TypeError
         | Some txt \<Rightarrow>
             let i = the (ws w) in
             Inr (emit [SocketSend i txt]
                    (w\<lparr>sockets := (sockets w)[i := (sockets w ! i)\<lparr>sent := sent (sockets w ! i) @ [txt]\<rparr>]\<rparr>)))
      else Inr (emit [ConsoleError ''WebSocket is not connected''] w))"

definition onMessage :: "'h \<Rightarrow> ('h, 'm, 'w) chatws \<Rightarrow> ('h, 'm, 'w) chatws" where
  "onMessage h w = w\<lparr>messageHandlers := messageHandlers w @ [h]\<rparr>"

definition onError :: "'h \<Rightarrow> ('h, 'm, 'w) chatws \<Rightarrow> ('h, 'm, 'w) chatws" where
  "onError h w = w\<lparr>errorHandlers := errorHandlers w @ [h]\<rparr>"

definition onOpen :: "'h \<Rightarrow> ('h, 'm, 'w) chatws \<Rightarrow> ('h, 'm, 'w) chatws" where
  "onOpen h w = w\<lparr>openHandlers := openHandlers w @ [h]\<rparr>"

definition onClose :: "'h \<Rightarrow> ('h, 'm, 'w) chatws \<Rightarrow> ('h, 'm, 'w) chatws" where
  "onClose h w = w\<lparr>closeHandlers := closeHandlers w @ [h]\<rparr>"

definition removeMessageHandler :: "'h \<Rightarrow> ('h, 'm, 'w) chatws \<Rightarrow> ('h, 'm, 'w) chatws" where
  "removeMessageHandler h w = w\<lparr>messageHandlers := filter (\<lambda>x. x \<noteq> h) (messageHandlers w)\<rparr>"

definition removeErrorHandler :: "'h \<Rightarrow> ('h, 'm, 'w) chatws \<Rightarrow> ('h, 'm, 'w) chatws" where
  "removeErrorHandler h w = w\<lparr>errorHandlers := filter (\<lambda>x. x \<noteq> h) (errorHandlers w)\<rparr>"

definition removeOpenHandler :: "'h \<Rightarrow> ('h, 'm, 'w) chatws \<Rightarrow> ('h, 'm, 'w) chatws" where
  "removeOpenHandler h w = w\<lparr>openHandlers := filter (\<lambda>x. x \<noteq> h) (openHandlers w)\<rparr>"

definition removeCloseHandler :: "'h \<Rightarrow> ('h, 'm, 'w) chatws \<Rightarrow> ('h, 'm, 'w) chatws" where
  "removeCloseHandler h w = w\<lparr>closeHandlers := filter (\<lambda>x. x \<noteq> h) (closeHandlers w)\<rparr>"

definition clearHandlers :: "('h, 'm, 'w) chatws \<Rightarrow> ('h, 'm, 'w) chatws" where
  "clearHandlers w =
     w\<lparr>messageHandlers := [], errorHandlers := [], openHandlers := [], closeHandlers := []\<rparr>"

subsection \<open>Events\<close>

text \<open>
  What can happen to one manager: a call of a public method, a transport event of one of
  its sockets (the browser updates the socket's \<open>readyState\<close>, then runs the wired callback),
  or a pending timer firing. An event that names a socket that was never created is
  impossible and leaves the state as it is.
\<close>

datatype ('h, 'w, 'c) event =
    Connect
  | Disconnect
  | Send 'c
  | OnMessage 'h
  | OnError 'h
  | OnOpen 'h
  | OnClose 'h
  | RemoveMessageHandler 'h
  | RemoveErrorHandler 'h
  | RemoveOpenHandler 'h
  | RemoveCloseHandler 'h
  | ClearHandlers
  | TOpen nat
  | TMessage nat 'w
  | TError nat
  | TClose nat
  | TimerFire nat

definition set_readyState :: "nat \<Rightarrow> ready_state \<Rightarrow> ('h, 'm, 'w) chatws \<Rightarrow> ('h, 'm, 'w) chatws" where
  "set_readyState i r w = w\<lparr>sockets := (sockets w)[i := (sockets w ! i)\<lparr>readyState := r\<rparr>]\<rparr>"

fun step ::
  "('w \<Rightarrow> 'm option) \<Rightarrow> ('c \<Rightarrow> 'w option) \<Rightarrow> ('h, 'w, 'c) event
     \<Rightarrow> ('h, 'm, 'w) chatws \<Rightarrow> ('h, 'm, 'w) chatws" where
  "step parse stringify Connect w = connect w"
| "step parse stringify Disconnect w = disconnect w"
| "step parse stringify (Send c) w =
     (case send stringify c w of Inl e \<Rightarrow> w | Inr w' \<Rightarrow> w')"
| "step parse stringify (OnMessage h) w = onMessage h w"
| "step parse stringify (OnError h) w = onError h w"
| "step parse stringify (OnOpen h) w = onOpen h w"
| "step parse stringify (OnClose h) w = onClose h w"
| "step parse stringify (RemoveMessageHandler h) w = removeMessageHandler h w"
| "step parse stringify (RemoveErrorHandler h) w = removeErrorHandler h w"
| "step parse stringify (RemoveOpenHandler h) w = removeOpenHandler h w"
| "step parse stringify (RemoveCloseHandler h) w = removeCloseHandler h w"
| "step parse stringify ClearHandlers w = clearHandlers w"
| "step parse stringify (TOpen i) w =
     (if i < length (sockets w) then ws_onopen (set_readyState i OPEN w) else w)"
| "step parse stringify (TMessage i d) w =
     (if i < length (sockets w) then ws_onmessage parse d w else w)"
| "step parse stringify (TError i) w =
     (if i < length (sockets w) then ws_onerror w else w)"
| "step parse stringify (TClose i) w =
     (if i < length (sockets w) then ws_onclose (set_readyState i CLOSED w) else w)"
| "step parse stringify (TimerFire k) w = timer_fire k w"

fun run ::
  "('w \<Rightarrow> 'm option) \<Rightarrow> ('c \<Rightarrow> 'w option) \<Rightarrow> ('h, 'w, 'c) event list
     \<Rightarrow> ('h, 'm, 'w) chatws \<Rightarrow> ('h, 'm, 'w) chatws" where
  "run parse stringify [] w = w"
| "run parse stringify (e # es) w = run parse stringify es (step parse stringify e w)"

text \<open>The delays of all reconnect attempts scheduled so far, in order.\<close>

fun scheduled :: "('h, 'm, 'w) effect list \<Rightarrow> nat list" where
  "scheduled [] = []"
| "scheduled (SetTimeout d # es) = d # scheduled es"
| "scheduled (e # es) = scheduled es"


text \<open>Recognisers used to delimit event sequences.\<close>

fun is_close :: "('h, 'w, 'c) event \<Rightarrow> bool" where
  "is_close (TClose i) = True"
| "is_close _ = False"

text \<open>
  The events that come from the browser (transport events and timers), as opposed to calls
  of the public methods.
\<close>

fun is_environment :: "('h, 'w, 'c) event \<Rightarrow> bool" where
  "is_environment (TOpen i) = True"
| "is_environment (TMessage i d) = True"
| "is_environment (TError i) = True"
| "is_environment (TClose i) = True"
| "is_environment (TimerFire k) = True"
| "is_environment _ = False"


section \<open>The chat component: ChatInterface.tsx\<close>

text \<open>
  Text shown in the transcript and typed by the user is a JavaScript string: a sequence of
  UTF-16 code units. \<open>js\<close> writes an ASCII literal as such a string.
\<close>

type_synonym jsstring = "16 word list"

definition js :: "string \<Rightarrow> jsstring" where
  "js s = map (\<lambda>c. of_nat (of_char c)) s"

text \<open>
  \<open>String.prototype.trim\<close>: strips the code units that ECMAScript calls WhiteSpace or
  LineTerminator from both ends.
\<close>

definition is_white_space :: "16 word \<Rightarrow> bool" where
  "is_white_space c =
     (c \<in> {0x0009, 0x000A, 0x000B, 0x000C, 0x000D, 0x0020, 0x00A0, 0x1680,
            0x2000, 0x2001, 0x2002, 0x2003, 0x2004, 0x2005, 0x2006, 0x2007,
            0x2008, 0x2009, 0x200A, 0x2028, 0x2029, 0x202F, 0x205F, 0x3000, 0xFEFF})"

definition trim :: "jsstring \<Rightarrow> jsstring" where
  "trim s = rev (dropWhile is_white_space (rev (dropWhile is_white_space s)))"

text \<open>
  The \<open>Message\<close> interface of the types module (its free-form \<open>metadata\<close> field, which
  the component never reads, is left out).
\<close>

datatype role = User | Assistant | System

record message =
  msg_id :: "nat option"
  session :: "nat option"
  role :: role
  content :: jsstring
  created_at :: jsstring
  rag_context :: "jsstring option"

text \<open>
  A decoded frame (\<open>WebSocketMessage\<close>), by its \<open>type\<close> tag, with the payload field each
  case of the dispatcher reads. \<open>Other\<close> is a frame with any other tag.
\<close>

datatype frame =
    Session_info jsstring
  | History "message list"
  | Message message
  | Stream_start "nat option"
  | Stream_token jsstring
  | Stream_end message
  | Stream_error jsstring
  | Error jsstring
  | Other string

text \<open>The command object built by \<open>handleSendMessage\<close>.\<close>

record command =
  cmd_type :: string
  cmd_content :: jsstring
  use_rag :: bool

text \<open>
  The component's React state. \<open>console\<close> collects what the component logs; \<open>flushed\<close>
  collects the renders forced by \<open>flushSync\<close>: each entry is what such a synchronous
  commit puts on screen of the stream (whether the streaming bubble is shown, and the
  buffer).
\<close>

record chat_state =
  messages :: "message list"
  inputMessage :: jsstring
  isStreaming :: bool
  streamingContent :: jsstring
  useRAG :: bool
  connected :: bool
  console :: "string list"
  flushed :: "(bool \<times> jsstring) list"

text \<open>
  \<open>handleWebSocketMessage\<close>: the dispatcher. It is memoised with no dependencies and only
  uses functional updates, so it never reads the current state to decide what to do.
\<close>

fun handleWebSocketMessage :: "frame \<Rightarrow> 'a chat_state_scheme \<Rightarrow> 'a chat_state_scheme" where
  "handleWebSocketMessage (Session_info x) s =
     s\<lparr>console := console s @ [''Session info received:'']\<rparr>"
| "handleWebSocketMessage (History ms) s = s\<lparr>messages := ms\<rparr>"
| "handleWebSocketMessage (Message m) s = s\<lparr>messages := messages s @ [m]\<rparr>"
| "handleWebSocketMessage (Stream_start mid) s =
     s\<lparr>isStreaming := True, streamingContent := []\<rparr>"
| "handleWebSocketMessage (Stream_token token) s =
     (let s1 = s\<lparr>console := console s @ [''Received token:''],
                  streamingContent := streamingContent s @ token\<rparr>
      in s1\<lparr>flushed := flushed s1 @ [(isStreaming s1, streamingContent s1)]\<rparr>)"
| "handleWebSocketMessage (Stream_end m) s =
     s\<lparr>messages := messages s @ [m], isStreaming := False, streamingContent := []\<rparr>"
| "handleWebSocketMessage (Stream_error e) s =
     s\<lparr>console := console s @ [''Stream error:''], isStreaming := False,
       streamingContent := []\<rparr>"
| "handleWebSocketMessage (Error e) s =
     s\<lparr>console := console s @ [''WebSocket error:'']\<rparr>"
| "handleWebSocketMessage (Other t) s = s"



subsection \<open>The session effect\<close>

text \<open>
  The handlers the effect registers are closures; each is identified by what it is and by
  the manager object it was created for.
\<close>

datatype ui_handler =
    HandleWebSocketMessage
  | OpenHandler nat
  | CloseHandler nat
  | ErrorHandler nat

text \<open>
  The operations the component performs on managers and timers, in the order it performs
  them. Managers are named by their position in \<open>objects\<close>, timers by their id.
\<close>

datatype call =
    Call_clearTimeout nat
  | Call_clearHandlers nat
  | Call_disconnect nat
  | Call_discard
  | Call_new nat string
  | Call_onMessage nat
  | Call_onOpen nat
  | Call_onClose nat
  | Call_onError nat
  | Call_setTimeout nat nat
  | Call_connect nat
  | Call_send nat command

text \<open>
  The component: its React state, the ref \<open>wsRef\<close>, every \<open>ChatWebSocket\<close> object it has
  constructed (\<open>wsRef\<close> points into them), the pending connect timers (timer id and the
  manager captured by the callback), and what React holds for the effect: the cleanup
  function returned by its last run (a closure over \<open>connectTimer\<close>) and the session id it ran
  with.
\<close>

record 'w chat_interface = chat_state +
  wsRef :: "nat option"
  objects :: "(ui_handler, frame, 'w) chatws list"
  connectTimers :: "(nat \<times> nat) list"
  nextTimerId :: nat
  cleanup :: "nat option"
  deps :: "string option"
  calls :: "call list"
  base_url :: string

definition mount_state :: "string \<Rightarrow> 'w chat_interface" where
  "mount_state base =
     \<lparr> messages = [], inputMessage = [], isStreaming = False, streamingContent = [],
       useRAG = False, connected = False, console = [], flushed = [],
       wsRef = None, objects = [], connectTimers = [], nextTimerId = 0,
       cleanup = None, deps = None, calls = [], base_url = base \<rparr>"

text \<open>The body of the effect, up to the \<open>return\<close> of the cleanup function.\<close>

definition session_effect :: "string \<Rightarrow> 'w chat_interface \<Rightarrow> 'w chat_interface" where
  "session_effect sid s =
     (if sid = [] then s\<lparr>cleanup := None\<rparr>
      else
        let s1 = s\<lparr>console := console s @ [''ChatInterface: Connecting to session:''],
                    messages := [], streamingContent := [], isStreaming := False\<rparr>;
            s2 = (case wsRef s1 of
                    None \<Rightarrow> s1
                  | Some r \<Rightarrow>
                      s1\<lparr>objects := (objects s1)[r := disconnect (objects s1 ! r)],
                         wsRef := None,
                         calls := calls s1 @ [Call_disconnect r, Call_discard]\<rparr>);
            n = length (objects s2);
            ws0 = onError (ErrorHandler n) (onClose (CloseHandler n) (onOpen (OpenHandler n)
                    (onMessage HandleWebSocketMessage (new_ChatWebSocket (base_url s2) sid))));
            t = nextTimerId s2
        in s2\<lparr>objects := objects s2 @ [ws0],
              wsRef := Some n,
              connectTimers := connectTimers s2 @ [(t, n)],
              nextTimerId := Suc t,
              calls := calls s2 @ [Call_new n sid, Call_onMessage n, Call_onOpen n,
                                   Call_onClose n, Call_onError n, Call_setTimeout t 100],
              cleanup := Some t\<rparr>)"

text \<open>The cleanup function that the effect returns.\<close>

definition session_cleanup :: "nat \<Rightarrow> 'w chat_interface \<Rightarrow> 'w chat_interface" where
  "session_cleanup connectTimer s =
     (let s1 = s\<lparr>console := console s @ [''ChatInterface: Cleaning up WebSocket for session:''],
                  connectTimers := filter (\<lambda>p. fst p \<noteq> connectTimer) (connectTimers s),
                  calls := calls s @ [Call_clearTimeout connectTimer]\<rparr>
      in case wsRef s1 of
           None \<Rightarrow> s1
         | Some r \<Rightarrow>
             s1\<lparr>objects := (objects s1)[r := disconnect (clearHandlers (objects s1 ! r))],
                wsRef := None,
                calls := calls s1 @ [Call_clearHandlers r, Call_disconnect r, Call_discard]\<rparr>)"

text \<open>
  What React does with the effect. After a render whose session id differs from the one
  the effect last ran with, React runs the previous cleanup (if the last run returned one)
  and then the effect; on unmount it runs the cleanup. In development, StrictMode runs
  cleanup and effect once more right after mounting.
\<close>

definition run_cleanup :: "'w chat_interface \<Rightarrow> 'w chat_interface" where
  "run_cleanup s =
     (case cleanup s of
        None \<Rightarrow> s
      | Some t \<Rightarrow> (session_cleanup t s)\<lparr>cleanup := None\<rparr>)"

definition render :: "string \<Rightarrow> 'w chat_interface \<Rightarrow> 'w chat_interface" where
  "render sid s =
     (if deps s = Some sid then s
      else (session_effect sid (run_cleanup s))\<lparr>deps := Some sid\<rparr>)"

definition unmount :: "'w chat_interface \<Rightarrow> 'w chat_interface" where
  "unmount s = (run_cleanup s)\<lparr>deps := None\<rparr>"

definition strict_remount :: "'w chat_interface \<Rightarrow> 'w chat_interface" where
  "strict_remount s =
     (case deps s of
        None \<Rightarrow> s
      | Some sid \<Rightarrow> session_effect sid (run_cleanup s))"

text \<open>The callback of the connect timer: \<open>ws.connect()\<close> on the manager it captured.\<close>

definition connect_timer_fire :: "nat \<Rightarrow> 'w chat_interface \<Rightarrow> 'w chat_interface" where
  "connect_timer_fire t s =
     (case map_of (connectTimers s) t of
        None \<Rightarrow> s
      | Some n \<Rightarrow>
          s\<lparr>connectTimers := filter (\<lambda>p. fst p \<noteq> t) (connectTimers s),
            objects := (objects s)[n := connect (objects s ! n)],
            calls := calls s @ [Call_connect n]\<rparr>)"

subsection \<open>Sending\<close>

text \<open>
  \<open>handleSendMessage\<close>. The command is a plain object; \<open>stringify\<close> is \<open>JSON.stringify\<close>
  on it. An exception of \<open>send\<close> would leave the handler before the input is cleared.
\<close>

definition handleSendMessage ::
  "(command \<Rightarrow> 'w option) \<Rightarrow> 'w chat_interface \<Rightarrow> exn + 'w chat_interface" where
  "handleSendMessage stringify s =
     (if trim (inputMessage s) = [] \<or> wsRef s = None \<or> isStreaming s then Inr s
      else
        let r = the (wsRef s);
            cmd = \<lparr>cmd_type = ''message'', cmd_content = trim (inputMessage s),
                   use_rag = useRAG s\<rparr>
        in case send stringify cmd (objects s ! r) of
             Inl e \<Rightarrow> Inl e
           | Inr w \<Rightarrow>
               Inr (s\<lparr>objects := (objects s)[r := w],
                      calls := calls s @ [Call_send r cmd],
                      inputMessage := []\<rparr>))"

subsection \<open>Handlers run by the managers\<close>

text \<open>
  When a manager invokes a handler that the effect registered, the closure runs on the
  component's state.
\<close>

fun deliver :: "(ui_handler, frame, 'w) effect \<Rightarrow> 'w chat_interface \<Rightarrow> 'w chat_interface" where
  "deliver (CallMessage HandleWebSocketMessage m) s = handleWebSocketMessage m s"
| "deliver (CallOpen (OpenHandler n)) s =
     s\<lparr>console := console s @ [''ChatInterface: WebSocket connected for session:''],
       connected := True\<rparr>"
| "deliver (CallClose (CloseHandler n)) s =
     s\<lparr>console := console s @ [''ChatInterface: WebSocket disconnected for session:''],
       connected := False\<rparr>"
| "deliver (CallError (ErrorHandler n)) s =
     (if wsRef s = None \<or> wsRef s \<noteq> Some n then s
      else s\<lparr>console := console s @ [''WebSocket error:'']\<rparr>)"
| "deliver e s = s"

definition manager_event ::
  "('w \<Rightarrow> frame option) \<Rightarrow> nat \<Rightarrow> (ui_handler, 'w, command) event
     \<Rightarrow> 'w chat_interface \<Rightarrow> 'w chat_interface" where
  "manager_event parse n e s =
     (if n < length (objects s) \<and> is_environment e then
        let w = objects s ! n;
            w' = step parse (\<lambda>c. None) e w
        in fold deliver (drop (length (trace w)) (trace w'))
             (s\<lparr>objects := (objects s)[n := w']\<rparr>)
      else s)"

text \<open>Everything that can happen to a mounted component.\<close>

datatype 'w ui_event =
    Render string
  | Unmount
  | StrictRemount
  | ConnectTimerFire nat
  | Manager nat "(ui_handler, 'w, command) event"
  | SetInputMessage jsstring
  | SetUseRAG bool
  | SendMessage

fun ui_step ::
  "('w \<Rightarrow> frame option) \<Rightarrow> (command \<Rightarrow> 'w option) \<Rightarrow> 'w ui_event
     \<Rightarrow> 'w chat_interface \<Rightarrow> 'w chat_interface" where
  "ui_step parse stringify (Render sid) s = render sid s"
| "ui_step parse stringify Unmount s = unmount s"
| "ui_step parse stringify StrictRemount s = strict_remount s"
| "ui_step parse stringify (ConnectTimerFire t) s = connect_timer_fire t s"
| "ui_step parse stringify (Manager n e) s = manager_event parse n e s"
| "ui_step parse stringify (SetInputMessage v) s = s\<lparr>inputMessage := v\<rparr>"
| "ui_step parse stringify (SetUseRAG b) s = s\<lparr>useRAG := b\<rparr>"
| "ui_step parse stringify SendMessage s =
     (case handleSendMessage stringify s of Inl e \<Rightarrow> s | Inr s' \<Rightarrow> s')"

fun ui_run ::
  "('w \<Rightarrow> frame option) \<Rightarrow> (command \<Rightarrow> 'w option) \<Rightarrow> 'w ui_event list
     \<Rightarrow> 'w chat_interface \<Rightarrow> 'w chat_interface" where
  "ui_run parse stringify [] s = s"
| "ui_run parse stringify (e # es) s = ui_run parse stringify es (ui_step parse stringify e s)"


section \<open>Observations used to state the properties\<close>

text \<open>The messages handed to message handlers so far, with the handler that received each.\<close>

fun message_calls :: "('h, 'm, 'w) effect list \<Rightarrow> ('h \<times> 'm) list" where
  "message_calls [] = []"
| "message_calls (CallMessage h m # es) = (h, m) # message_calls es"
| "message_calls (e # es) = message_calls es"

text \<open>The wire texts a manager has handed to its sockets so far.\<close>

fun transmitted :: "('h, 'm, 'w) effect list \<Rightarrow> 'w list" where
  "transmitted [] = []"
| "transmitted (SocketSend i d # es) = d # transmitted es"
| "transmitted (e # es) = transmitted es"


text \<open>Events that clear the \<open>isReconnecting\<close> flag.\<close>

fun clears_reconnecting :: "('h, 'w, 'c) event \<Rightarrow> bool" where
  "clears_reconnecting (TOpen i) = True"
| "clears_reconnecting Disconnect = True"
| "clears_reconnecting _ = False"

text \<open>The reconnect bookkeeping right after a successful open.\<close>

definition fresh :: "('h, 'm, 'w) chatws \<Rightarrow> bool" where
  "fresh w = (reconnectAttempts w = 0 \<and> \<not> isReconnecting w)"




subsection \<open>Concrete states\<close>

definition local_base :: string where
  "local_base = ''ws://localhost:8000/ws''"

text \<open>The dispatcher's state when nothing has happened yet: Idle, empty transcript.\<close>

definition idle_state :: chat_state where
  "idle_state =
     \<lparr> messages = [], inputMessage = [], isStreaming = False, streamingContent = [],
       useRAG = False, connected = True, console = [], flushed = [] \<rparr>"


text \<open>A manager whose first socket closed unexpectedly after it had opened.\<close>

definition lost_connection :: "(nat, nat, string) chatws" where
  "lost_connection =
     run (\<lambda>d. None) (\<lambda>c :: nat. None) [OnClose 1, Connect, TOpen 0, TClose 0]
       (new_ChatWebSocket local_base ''s1'')"

text \<open>A manager with an open socket.\<close>

definition open_connection :: "(nat, nat, string) chatws" where
  "open_connection =
     run (\<lambda>d. None) (\<lambda>c :: nat. None) [OnMessage 1, Connect, TOpen 0]
       (new_ChatWebSocket local_base ''s1'')"

text \<open>A manager of decoded frames with an open socket and the dispatcher registered.\<close>

definition open_session :: "(ui_handler, frame, string) chatws" where
  "open_session =
     run (\<lambda>d. None) (\<lambda>c :: nat. None) [OnMessage HandleWebSocketMessage, Connect, TOpen 0]
       (new_ChatWebSocket local_base ''s1'')"

text \<open>A parser that accepts the empty object only.\<close>

definition parse_empty_object :: "string \<Rightarrow> frame option" where
  "parse_empty_object d = (if d = ''{}'' then Some (Other []) else None)"


definition typed_component :: "jsstring \<Rightarrow> command chat_interface" where
  "typed_component v =
     ui_run (\<lambda>d. None) Some
       [Render ''s1'', ConnectTimerFire 0, Manager 0 (TOpen 0), SetInputMessage v]
       (mount_state local_base)"


section \<open>Properties of the connection manager\<close>

subsection \<open>Reading the trace\<close>

lemma scheduled_append: "scheduled (xs @ ys) = scheduled xs @ scheduled ys"
  by (induction xs rule: scheduled.induct) simp_all

lemma scheduled_CallOpen: "scheduled (map CallOpen hs) = []"
  by (induction hs) simp_all

lemma scheduled_CallClose: "scheduled (map CallClose hs) = []"
  by (induction hs) simp_all

lemma scheduled_CallError: "scheduled (map CallError hs) = []"
  by (induction hs) simp_all

lemma scheduled_CallMessage: "scheduled (map (\<lambda>h. CallMessage h m) hs) = []"
  by (induction hs) simp_all

lemmas scheduled_simps = scheduled_append scheduled_CallOpen scheduled_CallClose
  scheduled_CallError scheduled_CallMessage

lemma message_calls_append: "message_calls (xs @ ys) = message_calls xs @ message_calls ys"
  by (induction xs rule: message_calls.induct) simp_all

lemma transmitted_append: "transmitted (xs @ ys) = transmitted xs @ transmitted ys"
  by (induction xs rule: transmitted.induct) simp_all


lemmas manager_defs = connect_def disconnect_def emit_def send_def getState_def
  onMessage_def onError_def onOpen_def onClose_def removeMessageHandler_def
  removeErrorHandler_def removeOpenHandler_def removeCloseHandler_def clearHandlers_def
  ws_onopen_def ws_onmessage_def ws_onerror_def ws_onclose_def set_readyState_def
  timer_fire_def reconnect_callback_def attemptReconnect_def

subsection \<open>Reconnect after consecutive closes\<close>

text \<open>
  While \<open>isReconnecting\<close> is set, \<open>attemptReconnect\<close> returns at its guard. Only the open
  callback and \<open>disconnect()\<close> clear the flag; the timer callback does not. So after one
  attempt was scheduled, no sequence of closes, timer firings, errors, messages or calls
  of \<open>connect()\<close> schedules another one.
\<close>

lemma reconnecting_step:
  assumes "isReconnecting w" and "\<not> clears_reconnecting e"
  shows "isReconnecting (step parse stringify e w)
       \<and> scheduled (trace (step parse stringify e w)) = scheduled (trace w)"
  using assms
  by (cases e) (auto simp: manager_defs Let_def scheduled_simps split: option.splits)

lemma no_second_attempt_without_open:
  assumes "isReconnecting w" and "\<forall>e \<in> set es. \<not> clears_reconnecting e"
  shows "isReconnecting (run parse stringify es w)
       \<and> scheduled (trace (run parse stringify es w)) = scheduled (trace w)"
  using assms
proof (induction es arbitrary: w)
  case Nil
  then show ?case by simp
next
  case (Cons e es)
  from Cons.prems have "\<not> clears_reconnecting e" by simp
  from reconnecting_step [OF Cons.prems(1) this, of parse stringify]
  have s: "isReconnecting (step parse stringify e w)"
    "scheduled (trace (step parse stringify e w)) = scheduled (trace w)" by simp_all
  from Cons.prems have "\<forall>e \<in> set es. \<not> clears_reconnecting e" by simp
  from Cons.IH [OF s(1) this] s(2) show ?case by simp
qed

text \<open>
  C1. The claim: five consecutive unexpected closes with no successful open schedule five
  reconnect attempts, with delays 1000, 2000, 3000, 4000 and 5000. The code stops after
  the first: a manager connects, its socket closes unexpectedly (an attempt is scheduled
  after 1000), the timer fires and \<open>connect()\<close> creates a second socket, and that socket
  closes without ever opening. The second close schedules nothing: the list of scheduled
  delays is still \<open>[1000]\<close>, no timer is pending, and the manager sits on a closed socket
  with \<open>isReconnecting\<close> set and one attempt counted.
\<close>

theorem reconnect_stalls_after_first_attempt:
  "scheduled (trace (run parse stringify [Connect, TClose 0, TimerFire 0, TClose 1]
                       (new_ChatWebSocket base sid))) = [1000]
 \<and> timers (run parse stringify [Connect, TClose 0, TimerFire 0, TClose 1]
              (new_ChatWebSocket base sid)) = []
 \<and> length (sockets (run parse stringify [Connect, TClose 0, TimerFire 0, TClose 1]
                       (new_ChatWebSocket base sid))) = 2
 \<and> getState (run parse stringify [Connect, TClose 0, TimerFire 0, TClose 1]
                (new_ChatWebSocket base sid)) = Some CLOSED
 \<and> isReconnecting (run parse stringify [Connect, TClose 0, TimerFire 0, TClose 1]
                      (new_ChatWebSocket base sid))
 \<and> reconnectAttempts (run parse stringify [Connect, TClose 0, TimerFire 0, TClose 1]
                         (new_ChatWebSocket base sid)) = 1"
  by (simp add: new_ChatWebSocket_def manager_defs maxReconnectAttempts_def
      reconnectDelay_def Let_def)

subsection \<open>After disconnect\<close>











subsection \<open>Connecting twice\<close>

lemma connect_connecting:
  "getState (connect w) = Some OPEN \<or> getState (connect w) = Some CONNECTING"
  by (simp add: connect_def getState_def emit_def Let_def)

text \<open>
  C5. While the current socket is open or connecting, \<open>connect()\<close> returns the manager
  exactly as it was: no socket is added to the store, nothing is rewired, the trace is the
  same and the manual-disconnect flag is untouched. Since \<open>connect()\<close> always leaves the
  manager with a socket that is open or connecting, calling it twice in a row is the same
  as calling it once.
\<close>

theorem connect_idempotent:
  "(getState w = Some OPEN \<or> getState w = Some CONNECTING \<longrightarrow> connect w = w)
 \<and> connect (connect w) = connect w"
proof -
  have a: "getState w = Some OPEN \<or> getState w = Some CONNECTING \<longrightarrow> connect w = w"
    by (simp add: connect_def)
  have "connect (connect w) = connect w"
    using connect_connecting [of w] by (subst connect_def) simp
  with a show ?thesis by simp
qed

theorem connect_idempotent_witness:
  "getState (connect (new_ChatWebSocket local_base ''s1'' :: (nat, nat, string) chatws))
     = Some CONNECTING
 \<and> connect (connect (new_ChatWebSocket local_base ''s1'' :: (nat, nat, string) chatws))
     = connect (new_ChatWebSocket local_base ''s1'')
 \<and> length (sockets (connect (connect
       (new_ChatWebSocket local_base ''s1'' :: (nat, nat, string) chatws)))) = 1
 \<and> getState open_connection = Some OPEN
 \<and> connect open_connection = open_connection"
  using connect_idempotent
      [of "connect (new_ChatWebSocket local_base ''s1'' :: (nat, nat, string) chatws)"]
    connect_idempotent [of open_connection]
  by (simp add: open_connection_def local_base_def new_ChatWebSocket_def manager_defs Let_def)

subsection \<open>A successful open resets the backoff\<close>

lemma fresh_step:
  "fresh w \<Longrightarrow> \<not> is_close e \<Longrightarrow> fresh (step parse stringify e w)"
  by (cases e) (auto simp: fresh_def manager_defs Let_def split: option.splits)

lemma fresh_run:
  "fresh w \<Longrightarrow> \<forall>e \<in> set es. \<not> is_close e \<Longrightarrow> fresh (run parse stringify es w)"
  by (induction es arbitrary: w) (simp_all add: fresh_step)

lemma fresh_open: "i < length (sockets w) \<Longrightarrow> fresh (step parse stringify (TOpen i) w)"
  by (simp add: fresh_def ws_onopen_def emit_def set_readyState_def)

lemma fresh_close:
  assumes "fresh w" and "j < length (sockets w)" and "\<not> isManuallyDisconnected w"
  shows "scheduled (trace (step parse stringify (TClose j) w))
           = scheduled (trace w) @ [reconnectDelay * 1]
       \<and> timers (step parse stringify (TClose j) w) = timers w @ [reconnectDelay * 1]
       \<and> reconnectAttempts (step parse stringify (TClose j) w) = 1
       \<and> isReconnecting (step parse stringify (TClose j) w)"
  using assms
  by (simp add: fresh_def ws_onclose_def attemptReconnect_def emit_def set_readyState_def
      Let_def scheduled_simps maxReconnectAttempts_def)

text \<open>
  C6. The open event of a socket sets the attempt counter to 0 and clears
  \<open>isReconnecting\<close>, whatever they were. Nothing but a close event changes that
  afterwards, so the next unexpected close (the manual-disconnect flag not set) schedules
  exactly one attempt, after \<open>reconnectDelay * 1\<close>, and counts it as attempt 1.
\<close>

theorem open_resets_backoff:
  assumes "i < length (sockets w)" and "\<forall>e \<in> set es. \<not> is_close e"
  shows "reconnectAttempts (step parse stringify (TOpen i) w) = 0
       \<and> \<not> isReconnecting (step parse stringify (TOpen i) w)
       \<and> (j < length (sockets (run parse stringify es (step parse stringify (TOpen i) w)))
          \<and> \<not> isManuallyDisconnected (run parse stringify es (step parse stringify (TOpen i) w))
          \<longrightarrow>
            scheduled (trace (step parse stringify (TClose j)
                (run parse stringify es (step parse stringify (TOpen i) w))))
              = scheduled (trace (run parse stringify es (step parse stringify (TOpen i) w)))
                  @ [reconnectDelay * 1]
          \<and> timers (step parse stringify (TClose j)
                (run parse stringify es (step parse stringify (TOpen i) w)))
              = timers (run parse stringify es (step parse stringify (TOpen i) w))
                  @ [reconnectDelay * 1]
          \<and> reconnectAttempts (step parse stringify (TClose j)
                (run parse stringify es (step parse stringify (TOpen i) w))) = 1)"
proof -
  have f0: "fresh (step parse stringify (TOpen i) w)"
    using assms(1) by (rule fresh_open)
  have f1: "fresh (run parse stringify es (step parse stringify (TOpen i) w))"
    using f0 assms(2) by (rule fresh_run)
  show ?thesis
    using f0 fresh_close [OF f1, of j parse stringify]
    by (simp add: fresh_def del: step.simps)
qed

text \<open>
  At a manager that lost its connection (one attempt counted, a reconnect pending): the
  timer fires, the new socket opens, a message arrives, and the socket closes again. The
  delay scheduled for that close is 1000 again, not 2000.
\<close>

theorem open_resets_backoff_witness:
  "reconnectAttempts lost_connection = 1
 \<and> reconnectAttempts (run (\<lambda>d. None) (\<lambda>c. None) [TimerFire 0, TOpen 1] lost_connection) = 0
 \<and> \<not> isReconnecting (run (\<lambda>d. None) (\<lambda>c. None) [TimerFire 0, TOpen 1] lost_connection)
 \<and> scheduled (trace (run (\<lambda>d. None) (\<lambda>c. None)
       [TimerFire 0, TOpen 1, TMessage 1 ''{}'', TClose 1] lost_connection)) = [1000, 1000]
 \<and> timers (run (\<lambda>d. None) (\<lambda>c. None)
       [TimerFire 0, TOpen 1, TMessage 1 ''{}'', TClose 1] lost_connection) = [1000]"
  using open_resets_backoff
    [of 1 "run (\<lambda>d. None) (\<lambda>c. None) [TimerFire 0] lost_connection"
        "[TMessage 1 ''{}'']" "\<lambda>d. None" "\<lambda>c. None" 1]
  by (simp add: lost_connection_def local_base_def new_ChatWebSocket_def manager_defs
      maxReconnectAttempts_def reconnectDelay_def Let_def)

subsection \<open>Malformed frames\<close>

text \<open>
  C7. When the text of an incoming message does not parse, the message callback returns
  normally; all it did was log the failure. No message handler was invoked, so the frame
  reached no one, the dispatcher included; the sockets are untouched, and a connection
  that was open is still open.
\<close>

theorem malformed_frame_dropped:
  assumes "parse d = None" and "i < length (sockets w)"
  shows "step parse stringify (TMessage i d) w
           = w\<lparr>trace := trace w @ [ConsoleError ''Error parsing WebSocket message:'']\<rparr>
       \<and> message_calls (trace (step parse stringify (TMessage i d) w))
           = message_calls (trace w)
       \<and> sockets (step parse stringify (TMessage i d) w) = sockets w
       \<and> getState (step parse stringify (TMessage i d) w) = getState w
       \<and> isConnected (step parse stringify (TMessage i d) w) = isConnected w"
proof -
  have eq: "step parse stringify (TMessage i d) w
           = w\<lparr>trace := trace w @ [ConsoleError ''Error parsing WebSocket message:'']\<rparr>"
    using assms by (simp add: ws_onmessage_def emit_def)
  show ?thesis
    unfolding eq
    by (simp add: isConnected_def getState_def message_calls_append split: option.splits)
qed

text \<open>
  At a manager with an open socket and one message handler, with a parser that accepts
  \<open>{}\<close>: the text \<open>{not json\<close> reaches no handler and leaves the connection open,
  while \<open>{}\<close> does reach the handler.
\<close>

theorem malformed_frame_dropped_witness:
  "parse_empty_object ''{not json'' = None
 \<and> isConnected open_session
 \<and> messageHandlers open_session = [HandleWebSocketMessage]
 \<and> message_calls (trace (step parse_empty_object (\<lambda>c :: nat. None)
        (TMessage 0 ''{not json'') open_session)) = []
 \<and> isConnected (step parse_empty_object (\<lambda>c :: nat. None)
        (TMessage 0 ''{not json'') open_session)
 \<and> message_calls (trace (step parse_empty_object (\<lambda>c :: nat. None)
        (TMessage 0 ''{}'') open_session)) = [(HandleWebSocketMessage, Other [])]"
  using malformed_frame_dropped
    [of parse_empty_object "''{not json''" 0 open_session "\<lambda>c :: nat. None"]
  by (simp add: parse_empty_object_def open_session_def local_base_def
      new_ChatWebSocket_def isConnected_def manager_defs Let_def)

subsection \<open>Sending\<close>

text \<open>
  C8. When the current socket is not open (or there is none), \<open>send\<close> returns normally
  and the only thing it did was report \<open>WebSocket is not connected\<close>: no socket was
  touched, and since the manager has no queue, the command is gone. When the socket is
  open and the command has a JSON text, exactly that text is handed to the socket.
\<close>

theorem send_only_when_open:
  "(getState w \<noteq> Some OPEN \<longrightarrow>
      send stringify c w
        = Inr (w\<lparr>trace := trace w @ [ConsoleError ''WebSocket is not connected'']\<rparr>))
 \<and> (getState w = Some OPEN \<and> stringify c = Some d \<longrightarrow>
      (\<exists>i. ws w = Some i \<and> i < length (sockets w) \<and>
        send stringify c w =
          Inr (w\<lparr>sockets := (sockets w)[i := (sockets w ! i)\<lparr>sent := sent (sockets w ! i) @ [d]\<rparr>],
                 trace := trace w @ [SocketSend i d]\<rparr>)))"
  by (auto simp: send_def emit_def getState_def split: option.splits if_splits)

theorem send_only_when_open_witness:
  "getState (new_ChatWebSocket local_base ''s1'' :: (nat, nat, string) chatws) \<noteq> Some OPEN
 \<and> send Some ''hello'' (new_ChatWebSocket local_base ''s1'' :: (nat, nat, string) chatws)
     = Inr ((new_ChatWebSocket local_base ''s1'')
              \<lparr>trace := [ConsoleError ''WebSocket is not connected'']\<rparr>)
 \<and> getState open_connection = Some OPEN
 \<and> send Some ''hello'' open_connection
     = Inr (open_connection
              \<lparr>sockets := [\<lparr>url = ''ws://localhost:8000/ws/chat/s1/'', readyState = OPEN,
                              sent = [''hello'']\<rparr>],
                trace := trace open_connection @ [SocketSend 0 ''hello'']\<rparr>)"
  using send_only_when_open
      [of "new_ChatWebSocket local_base ''s1'' :: (nat, nat, string) chatws" Some "''hello''"]
    send_only_when_open [of open_connection Some "''hello''" "''hello''"]
  by (simp add: open_connection_def local_base_def new_ChatWebSocket_def manager_defs Let_def)

section \<open>Properties of the dispatcher\<close>



text \<open>
  C2, as stated: a \<open>stream_token\<close> frame that arrives while no stream is active leaves
  the stream buffer unchanged. It does not: from the Idle state with an empty buffer, the
  token \<open>x\<close> leaves the buffer holding \<open>x\<close>.
\<close>

theorem stray_token_counterexample:
  "\<not> isStreaming idle_state
 \<and> streamingContent (handleWebSocketMessage (Stream_token (js ''x'')) idle_state)
     \<noteq> streamingContent idle_state"
  by (simp add: idle_state_def js_def Let_def)

text \<open>
  C2, amended: a \<open>stream_token\<close> frame that arrives while no stream is active leaves the
  transcript unchanged and causes no transition (the state stays Idle), but the token is
  appended to the stream buffer. The dispatcher has no guard on the stream state in any of
  its cases. The commit forced for the token shows no streaming bubble (the bubble is
  rendered only while streaming), and \<open>stream_start\<close> empties the buffer, so the stray
  token is never displayed.
\<close>

theorem stray_token_appended:
  assumes "\<not> isStreaming s"
  shows "messages (handleWebSocketMessage (Stream_token t) s) = messages s
       \<and> \<not> isStreaming (handleWebSocketMessage (Stream_token t) s)
       \<and> streamingContent (handleWebSocketMessage (Stream_token t) s) = streamingContent s @ t
       \<and> flushed (handleWebSocketMessage (Stream_token t) s)
           = flushed s @ [(False, streamingContent s @ t)]
       \<and> streamingContent
            (handleWebSocketMessage (Stream_start mid)
               (handleWebSocketMessage (Stream_token t) s)) = []"
  using assms by (simp add: Let_def)

theorem stray_token_appended_witness:
  "\<not> isStreaming idle_state
 \<and> messages (handleWebSocketMessage (Stream_token (js ''x'')) idle_state) = []
 \<and> \<not> isStreaming (handleWebSocketMessage (Stream_token (js ''x'')) idle_state)
 \<and> streamingContent (handleWebSocketMessage (Stream_token (js ''x'')) idle_state) = js ''x''"
  using stray_token_appended [of idle_state "js ''x''" None]
  by (simp add: idle_state_def js_def Let_def)



section \<open>Properties of the component\<close>

subsection \<open>Sending a message\<close>

lemma trim_empty_iff: "trim s = [] \<longleftrightarrow> (\<forall>c \<in> set s. is_white_space c)"
proof
  assume "trim s = []"
  then have "dropWhile is_white_space (rev (dropWhile is_white_space s)) = []"
    by (simp add: trim_def)
  then have a: "\<forall>c \<in> set (dropWhile is_white_space s). is_white_space c"
    by (metis dropWhile_eq_Nil_conv set_rev)
  have "dropWhile is_white_space s = []"
  proof (rule ccontr)
    assume ne: "dropWhile is_white_space s \<noteq> []"
    then have "\<not> is_white_space (hd (dropWhile is_white_space s))"
      by (simp add: hd_dropWhile)
    moreover have "hd (dropWhile is_white_space s) \<in> set (dropWhile is_white_space s)"
      using ne by simp
    ultimately show False using a by blast
  qed
  then show "\<forall>c \<in> set s. is_white_space c"
    by (metis dropWhile_eq_Nil_conv)
next
  assume "\<forall>c \<in> set s. is_white_space c"
  then have e: "dropWhile is_white_space s = []" by (metis dropWhile_eq_Nil_conv)
  show "trim s = []" unfolding trim_def e by simp
qed

lemma send_transmitted:
  "send stringify c w = Inr w' \<Longrightarrow>
     transmitted (trace w') = transmitted (trace w)
   \<or> (\<exists>d. stringify c = Some d \<and> transmitted (trace w') = transmitted (trace w) @ [d])"
  by (auto simp: send_def emit_def transmitted_append Let_def split: if_splits option.splits)

lemma handleSendMessage_cases:
  assumes "handleSendMessage stringify s = Inr s'"
  shows "s' = s
       \<or> (\<exists>r w. wsRef s = Some r
            \<and> send stringify \<lparr>cmd_type = ''message'', cmd_content = trim (inputMessage s),
                                use_rag = useRAG s\<rparr> (objects s ! r) = Inr w
            \<and> s' = s\<lparr>objects := (objects s)[r := w],
                        calls := calls s @ [Call_send r \<lparr>cmd_type = ''message'',
                                   cmd_content = trim (inputMessage s), use_rag = useRAG s\<rparr>],
                        inputMessage := []\<rparr>)"
  using assms
  by (auto simp: handleSendMessage_def Let_def split: if_splits sum.splits)

text \<open>
  C10. When a stream is active, or the input is empty or consists of white space only,
  \<open>handleSendMessage\<close> returns the component as it is: nothing is sent and nothing
  changes. Whenever it returns at all, the wire texts of every manager are what they were,
  except possibly for one text appended at the manager \<open>wsRef\<close> points to; and that text
  is the JSON text of the command with type \<open>message\<close>, the trimmed input as content and
  the current \<open>useRAG\<close> flag.
\<close>

theorem send_message_guarded:
  "(isStreaming s \<or> (\<forall>c \<in> set (inputMessage s). is_white_space c)
      \<longrightarrow> handleSendMessage stringify s = Inr s)
 \<and> (handleSendMessage stringify s = Inr s' \<longrightarrow>
      map (\<lambda>w. transmitted (trace w)) (objects s') = map (\<lambda>w. transmitted (trace w)) (objects s)
    \<or> (\<exists>r d. wsRef s = Some r \<and> r < length (objects s)
          \<and> stringify \<lparr>cmd_type = ''message'', cmd_content = trim (inputMessage s),
                        use_rag = useRAG s\<rparr> = Some d
          \<and> map (\<lambda>w. transmitted (trace w)) (objects s')
              = (map (\<lambda>w. transmitted (trace w)) (objects s))
                  [r := transmitted (trace (objects s ! r)) @ [d]]))"
proof -
  let ?cmd = "\<lparr>cmd_type = ''message'', cmd_content = trim (inputMessage s),
               use_rag = useRAG s\<rparr>"
  let ?tx = "\<lambda>w :: (ui_handler, frame, 'a) chatws. transmitted (trace w)"
  have a: "isStreaming s \<or> (\<forall>c \<in> set (inputMessage s). is_white_space c)
      \<longrightarrow> handleSendMessage stringify s = Inr s"
    by (auto simp: handleSendMessage_def trim_empty_iff)
  have b: "map ?tx (objects s') = map ?tx (objects s)
    \<or> (\<exists>r d. wsRef s = Some r \<and> r < length (objects s) \<and> stringify ?cmd = Some d
          \<and> map ?tx (objects s')
              = (map ?tx (objects s))[r := transmitted (trace (objects s ! r)) @ [d]])"
    if h: "handleSendMessage stringify s = Inr s'"
  proof -
    from handleSendMessage_cases [OF h] show ?thesis
    proof (elim disjE exE conjE)
      assume "s' = s"
      then show ?thesis by simp
    next
      fix r w
      assume r: "wsRef s = Some r" and w: "send stringify ?cmd (objects s ! r) = Inr w"
        and s': "s' = s\<lparr>objects := (objects s)[r := w],
                        calls := calls s @ [Call_send r ?cmd], inputMessage := []\<rparr>"
      have obj: "map ?tx (objects s') = (map ?tx (objects s))[r := transmitted (trace w)]"
        by (simp add: s' map_update)
      show ?thesis
      proof (cases "r < length (objects s)")
        case False
        then have "map ?tx (objects s') = map ?tx (objects s)"
          unfolding obj by (simp add: list_update_beyond)
        then show ?thesis by simp
      next
        case True
        from send_transmitted [OF w] show ?thesis
        proof
          assume "transmitted (trace w) = transmitted (trace (objects s ! r))"
          then have "map ?tx (objects s') = map ?tx (objects s)"
            unfolding obj using True by (simp add: list_update_same_conv)
          then show ?thesis by simp
        next
          assume "\<exists>d. stringify ?cmd = Some d
                    \<and> transmitted (trace w) = transmitted (trace (objects s ! r)) @ [d]"
          then obtain d where "stringify ?cmd = Some d"
            and "transmitted (trace w) = transmitted (trace (objects s ! r)) @ [d]" by blast
          with r True obj show ?thesis by auto
        qed
      qed
    qed
  qed
  from a b show ?thesis by blast
qed

text \<open>
  At a component bound to a session whose socket is open: with the input \<open>hi\<close> surrounded
  by blanks one command is transmitted, with content \<open>hi\<close>; with blanks only, nothing is.
\<close>

theorem send_message_guarded_witness:
  "\<not> isStreaming (typed_component (js ''   ''))
 \<and> handleSendMessage Some (typed_component (js ''   '')) = Inr (typed_component (js ''   ''))
 \<and> map (\<lambda>w. transmitted (trace w)) (objects (typed_component (js '' hi  ''))) = [[]]
 \<and> map (\<lambda>w. transmitted (trace w))
      (objects (projr (handleSendMessage Some (typed_component (js '' hi  '')))))
     = [[\<lparr>cmd_type = ''message'', cmd_content = js ''hi'', use_rag = False\<rparr>]]"
  using send_message_guarded [of "typed_component (js ''   '')" Some]
    send_message_guarded [of "typed_component (js '' hi  '')" Some
      "projr (handleSendMessage Some (typed_component (js '' hi  '')))"]
  by (simp add: typed_component_def mount_state_def local_base_def render_def
      run_cleanup_def session_effect_def connect_timer_fire_def manager_event_def
      handleSendMessage_def trim_def js_def is_white_space_def new_ChatWebSocket_def
      manager_defs Let_def)

subsection \<open>What handlers and cleanup leave alone\<close>




subsection \<open>Reachable states are well formed\<close>













subsection \<open>A manager torn down before it connected stays unconnected\<close>












subsection \<open>Switching sessions\<close>






end
